theory Spec2Isabelle
  imports Complex_Main "HOL-Library.Multiset"
begin

section \<open>Floating-point values\<close>

text \<open>
  The notebooks compute on numpy arrays of IEEE floats. A value is a finite number, one
  of the two zeros, an infinity or NaN. Finite values are carried as rationals and the
  arithmetic on them is exact: rounding, overflow and underflow of finite results are
  not part of this model. The special values follow IEEE 754 as numpy applies it:
  division by zero gives an infinity or NaN and raises nothing, NaN propagates through
  arithmetic, and every ordered comparison with NaN is false.
  \<open>Fin 0\<close> is the positive zero, \<open>NegZero\<close> the negative one.
\<close>

datatype fl = Fin rat | NegZero | PInf | NInf | NaN

fun is_nan :: "fl \<Rightarrow> bool" where
  "is_nan NaN = True"
| "is_nan _ = False"

fun is_inf :: "fl \<Rightarrow> bool" where
  "is_inf PInf = True"
| "is_inf NInf = True"
| "is_inf _ = False"

fun fl_val :: "fl \<Rightarrow> rat" where
  "fl_val (Fin r) = r"
| "fl_val _ = 0"

definition is_zero :: "fl \<Rightarrow> bool" where
  "is_zero x = (x = NegZero \<or> x = Fin 0)"

fun sign_bit :: "fl \<Rightarrow> bool" where
  "sign_bit (Fin r) = (r < 0)"
| "sign_bit NegZero = True"
| "sign_bit NInf = True"
| "sign_bit _ = False"

definition signed_inf :: "bool \<Rightarrow> fl" where
  "signed_inf s = (if s then NInf else PInf)"

definition signed_zero :: "bool \<Rightarrow> fl" where
  "signed_zero s = (if s then NegZero else Fin 0)"

definition fl_sub :: "fl \<Rightarrow> fl \<Rightarrow> fl" where
  "fl_sub a b =
     (if is_nan a \<or> is_nan b then NaN
      else if is_inf a then (if a = b then NaN else a)
      else if is_inf b then (if b = PInf then NInf else PInf)
      else if fl_val a - fl_val b \<noteq> 0 then Fin (fl_val a - fl_val b)
      else if a = NegZero \<and> b = Fin 0 then NegZero
      else Fin 0)"

definition fl_add :: "fl \<Rightarrow> fl \<Rightarrow> fl" where
  "fl_add a b =
     (if is_nan a \<or> is_nan b then NaN
      else if is_inf a then (if is_inf b \<and> a \<noteq> b then NaN else a)
      else if is_inf b then b
      else if fl_val a + fl_val b \<noteq> 0 then Fin (fl_val a + fl_val b)
      else if a = NegZero \<and> b = NegZero then NegZero
      else Fin 0)"

definition fl_div :: "fl \<Rightarrow> fl \<Rightarrow> fl" where
  "fl_div a b =
     (if is_nan a \<or> is_nan b then NaN
      else if (is_inf a \<and> is_inf b) \<or> (is_zero a \<and> is_zero b) then NaN
      else if is_inf a \<or> is_zero b then signed_inf (sign_bit a \<noteq> sign_bit b)
      else if is_zero a \<or> is_inf b then signed_zero (sign_bit a \<noteq> sign_bit b)
      else Fin (fl_val a / fl_val b))"

definition fl_mul :: "fl \<Rightarrow> fl \<Rightarrow> fl" where
  "fl_mul a b =
     (if is_nan a \<or> is_nan b then NaN
      else if (is_inf a \<and> is_zero b) \<or> (is_zero a \<and> is_inf b) then NaN
      else if is_inf a \<or> is_inf b then signed_inf (sign_bit a \<noteq> sign_bit b)
      else if is_zero a \<or> is_zero b then signed_zero (sign_bit a \<noteq> sign_bit b)
      else Fin (fl_val a * fl_val b))"

fun is_fin :: "fl \<Rightarrow> bool" where
  "is_fin (Fin r) = True"
| "is_fin _ = False"

fun fl_abs :: "fl \<Rightarrow> fl" where
  "fl_abs (Fin r) = Fin \<bar>r\<bar>"
| "fl_abs NegZero = Fin 0"
| "fl_abs PInf = PInf"
| "fl_abs NInf = PInf"
| "fl_abs NaN = NaN"

text \<open>
  The comparisons \<open><\<close> and \<open><=\<close>. Python's \<open>a > b\<close> is \<open>fl_less b a\<close> and its
  \<open>a >= b\<close> is \<open>fl_le b a\<close>.
\<close>

definition fl_less :: "fl \<Rightarrow> fl \<Rightarrow> bool" where
  "fl_less a b =
     (if is_nan a \<or> is_nan b then False
      else if a = PInf \<or> b = NInf then False
      else if a = NInf \<or> b = PInf then True
      else fl_val a < fl_val b)"

definition fl_le :: "fl \<Rightarrow> fl \<Rightarrow> bool" where
  "fl_le a b =
     (if is_nan a \<or> is_nan b then False
      else if a = NInf \<or> b = PInf then True
      else if a = PInf \<or> b = NInf then False
      else fl_val a \<le> fl_val b)"

text \<open>
  \<open>np.clip(x, lo, hi)\<close> is \<open>minimum(maximum(x, lo), hi)\<close>; both propagate NaN.
\<close>

definition np_maximum :: "fl \<Rightarrow> fl \<Rightarrow> fl" where
  "np_maximum a b = (if is_nan a then a else if is_nan b then b else if fl_less a b then b else a)"

definition np_minimum :: "fl \<Rightarrow> fl \<Rightarrow> fl" where
  "np_minimum a b = (if is_nan a then a else if is_nan b then b else if fl_less b a then b else a)"

definition np_clip :: "fl \<Rightarrow> fl \<Rightarrow> fl \<Rightarrow> fl" where
  "np_clip x lo hi = np_minimum (np_maximum x lo) hi"

section \<open>Errors\<close>

text \<open>
  The exceptions the modelled code can raise are Python's \<open>ValueError\<close>,
  \<open>ZeroDivisionError\<close> and \<open>IndexError\<close>. \<open>EmptyRegionError\<close> and
  \<open>InsufficientDataError\<close> are the error names of the specification; no statement of
  the notebooks raises them.
\<close>

datatype error =
    ValueError
  | ZeroDivisionError
  | IndexError
  | EmptyRegionError
  | InsufficientDataError

section \<open>Calibration (hsi\_calibration\_automated)\<close>

text \<open>
  A cube is indexed by row, column and band. \<open>shape_of\<close> is numpy's \<open>shape\<close> of a
  cube whose rows and pixels have one length each, which \<open>is_array\<close> says; \<open>extents\<close>
  lists the length of every row and every pixel. \<open>finite_cube\<close>: every element is a
  finite number (and no zero is negative), as the counts of a sensor are.
\<close>

type_synonym cube = "fl list list list"

definition extents :: "'a list list list \<Rightarrow> nat list list" where
  "extents c = map (map length) c"

definition shape_of :: "'a list list list \<Rightarrow> nat \<times> nat \<times> nat" where
  "shape_of c =
     (length c,
      (case c of [] \<Rightarrow> 0 | row # _ \<Rightarrow> length row),
      (case c of [] \<Rightarrow> 0 | row # _ \<Rightarrow> (case row of [] \<Rightarrow> 0 | px # _ \<Rightarrow> length px)))"

definition is_array :: "'a list list list \<Rightarrow> bool" where
  "is_array c =
     (case shape_of c of
        (r, k, b) \<Rightarrow> list_all (\<lambda>row. length row = k \<and> list_all (\<lambda>px. length px = b) row) c)"

definition finite_cube :: "cube \<Rightarrow> bool" where
  "finite_cube c = list_all (list_all (list_all is_fin)) c"

text \<open>
  \<open>apply_calibration\<close>:
  \<open>calibrated_image = (raw_image - dark_ref) / (white_ref - dark_ref)\<close>, then
  \<open>np.clip(calibrated_image, 0, 1)\<close>, elementwise. The driver calls it with three
  cubes of one shape. On other triples numpy broadcasts or raises \<open>ValueError\<close>;
  broadcasting is not modelled, and every such triple is the error here.
\<close>

definition calibrate_elem :: "fl \<Rightarrow> fl \<Rightarrow> fl \<Rightarrow> fl" where
  "calibrate_elem r w d = np_clip (fl_div (fl_sub r d) (fl_sub w d)) (Fin 0) (Fin 1)"

definition map3 :: "('a \<Rightarrow> 'b \<Rightarrow> 'c \<Rightarrow> 'd) \<Rightarrow> 'a list \<Rightarrow> 'b list \<Rightarrow> 'c list \<Rightarrow> 'd list" where
  "map3 f xs ys zs = map (\<lambda>(x, y, z). f x y z) (zip xs (zip ys zs))"

definition apply_calibration :: "cube \<Rightarrow> cube \<Rightarrow> cube \<Rightarrow> error + cube" where
  "apply_calibration raw_image white_ref dark_ref =
     (if extents white_ref = extents raw_image \<and> extents dark_ref = extents raw_image
      then Inr (map3 (map3 (map3 calibrate_elem)) raw_image white_ref dark_ref)
      else Inl ValueError)"

text \<open>
  Modelled from the spec: \<open>scipy.ndimage.zoom\<close> with \<open>order=1\<close>, which
  \<open>resize_hyperspectral_image\<close> calls and which is not in the repository. The
  specification: the cube is scaled independently along the row and the column axis by
  the respective factors, the band axis by its factor, which is 1, with smooth
  (bilinear-equivalent, order-1) interpolation and no edge policy beyond the method's
  own. \<open>py_round\<close> is the rounding of the scaled extent to an integer, halves to the
  even one; \<open>lerp\<close> is the interpolation of order 1 between two neighbours, with the
  weights \<open>1 - t\<close> and \<open>t\<close>.
\<close>

definition py_round :: "rat \<Rightarrow> int" where
  "py_round x =
     (if x - of_int \<lfloor>x\<rfloor> < 1 / 2 then \<lfloor>x\<rfloor>
      else if 1 / 2 < x - of_int \<lfloor>x\<rfloor> then \<lfloor>x\<rfloor> + 1
      else if even \<lfloor>x\<rfloor> then \<lfloor>x\<rfloor> else \<lfloor>x\<rfloor> + 1)"

definition lerp :: "rat \<Rightarrow> fl \<Rightarrow> fl \<Rightarrow> fl" where
  "lerp t a b = fl_add (fl_mul (Fin (1 - t)) a) (fl_mul (Fin t) b)"

text \<open>
  Modelled from the spec: the scaling of \<open>scipy.ndimage.zoom\<close> along one axis. An axis
  of \<open>n\<close> entries scaled by a factor has \<open>m\<close> entries, \<open>n\<close> times the factor, rounded;
  the first and the last entry keep their places, entry \<open>j\<close> of the result lies at the
  coordinate \<open>j * (n - 1) / (m - 1)\<close> of the input and is interpolated between the two
  entries next to that coordinate (past the last entry, the last entry again). \<open>mix\<close>
  interpolates two entries of the axis.
\<close>

definition zoom_axis :: "(rat \<Rightarrow> 'a \<Rightarrow> 'a \<Rightarrow> 'a) \<Rightarrow> rat \<Rightarrow> 'a list \<Rightarrow> 'a list" where
  "zoom_axis mix factor xs =
     (let n = length xs;
          m = nat (py_round (of_nat n * factor))
      in map (\<lambda>j. let c = (if m \<le> 1 then 0 else of_nat j * of_nat (n - 1) / of_nat (m - 1));
                      i = nat \<lfloor>c\<rfloor>
                  in mix (c - of_int \<lfloor>c\<rfloor>) (xs ! i) (xs ! min (Suc i) (n - 1)))
           [0..<m])"

text \<open>
  Modelled from the spec: \<open>scipy.ndimage.zoom(image, factors, order=1)\<close>, the three
  axes scaled independently: the bands of every pixel, the pixels of every row, the
  rows of the cube.
\<close>

definition zoom :: "cube \<Rightarrow> rat \<times> rat \<times> rat \<Rightarrow> cube" where
  "zoom c factors =
     (case factors of
        (fr, fk, fb) \<Rightarrow>
          zoom_axis (\<lambda>t. map2 (map2 (lerp t))) fr
            (map (zoom_axis (\<lambda>t. map2 (lerp t)) fk)
               (map (map (zoom_axis lerp fb)) c)))"

text \<open>
  \<open>resize_hyperspectral_image\<close>: the zoom factors are the quotients of the target
  extents by the image's own, and 1 for the band axis. The quotient of two Python ints
  raises \<open>ZeroDivisionError\<close> on a zero divisor.
\<close>

definition zoom_factors :: "nat \<times> nat \<times> nat \<Rightarrow> nat \<times> nat \<times> nat \<Rightarrow> error + rat \<times> rat \<times> rat" where
  "zoom_factors image_shape target_shape =
     (case (image_shape, target_shape) of
        ((r, k, b), (tr, tk, tb)) \<Rightarrow>
          if r = 0 \<or> k = 0 then Inl ZeroDivisionError
          else Inr (of_nat tr / of_nat r, of_nat tk / of_nat k, 1))"

definition resize_hyperspectral_image :: "cube \<Rightarrow> nat \<times> nat \<times> nat \<Rightarrow> error + cube" where
  "resize_hyperspectral_image img target_shape =
     (case zoom_factors (shape_of img) target_shape of
        Inl e \<Rightarrow> Inl e
      | Inr factors \<Rightarrow> Inr (zoom img factors))"

text \<open>
  The step of \<open>process_directory\<close> that brings a reference to the raw image:
  \<open>if white_ref.shape != raw_image.shape: white_ref = resize_hyperspectral_image(white_ref, raw_image.shape)\<close>,
  and the same for the dark reference.
\<close>

definition resize_if_needed :: "cube \<Rightarrow> cube \<Rightarrow> error + cube" where
  "resize_if_needed raw_image ref =
     (if shape_of ref \<noteq> shape_of raw_image
      then resize_hyperspectral_image ref (shape_of raw_image)
      else Inr ref)"

section \<open>Spectral extraction (process\_image)\<close>

subsection \<open>Library routines\<close>

text \<open>
  \<open>np.argmin\<close> scans from the left and moves to a later element only when that element
  is strictly smaller or is NaN; a NaN, once met, ends the scan. On an empty array it
  raises \<open>ValueError\<close>.
\<close>

fun argmin_loop :: "fl list \<Rightarrow> nat \<Rightarrow> fl \<Rightarrow> nat \<Rightarrow> nat" where
  "argmin_loop [] i mp min_ind = min_ind"
| "argmin_loop (x # xs) i mp min_ind =
     (if is_nan mp then min_ind
      else if fl_le mp x then argmin_loop xs (Suc i) mp min_ind
      else argmin_loop xs (Suc i) x i)"

definition np_argmin :: "fl list \<Rightarrow> error + nat" where
  "np_argmin xs = (case xs of [] \<Rightarrow> Inl ValueError | x # rest \<Rightarrow> Inr (argmin_loop rest 1 x 0))"

text \<open>\<open>np.argwhere\<close> lists the positions of the true entries in row-major order.\<close>

definition np_argwhere :: "bool list list \<Rightarrow> (nat \<times> nat) list" where
  "np_argwhere m = [(x, y). x \<leftarrow> [0..<length m], y \<leftarrow> [0..<length (m ! x)], m ! x ! y]"

text \<open>
  The mean of pandas skips NaN entries (\<open>skipna=True\<close>): the sum of the others over
  their number, and NaN when there are none.
\<close>

definition nanmean :: "fl list \<Rightarrow> fl" where
  "nanmean xs =
     (let vs = filter (\<lambda>x. \<not> is_nan x) xs
      in fl_div (foldl fl_add (Fin 0) vs) (Fin (of_nat (length vs))))"

definition column_means :: "nat \<Rightarrow> fl list list \<Rightarrow> fl list" where
  "column_means ncolumns rows = map (\<lambda>j. nanmean (map (\<lambda>row. row ! j) rows)) [0..<ncolumns]"

text \<open>
  The random generator is numpy's: \<open>rng_seed\<close> is the state a seed gives, and
  \<open>rng_permutation g n\<close> is the permutation of \<open>0..<n\<close> drawn from state \<open>g\<close> with the
  state that follows. Both are parameters of the model, and \<open>rng_ok\<close> says that what
  is drawn is a permutation. \<open>np.random.seed\<close> overwrites the global state;
  \<open>sample(frac=1)\<close> draws a permutation from the global state;
  \<open>sample(n=k, random_state=s)\<close> takes the first \<open>k\<close> entries of a permutation drawn
  from a fresh generator seeded with \<open>s\<close>.
\<close>

record 'g rng =
  rng_seed :: "int \<Rightarrow> 'g"
  rng_permutation :: "'g \<Rightarrow> nat \<Rightarrow> nat list \<times> 'g"

definition rng_ok :: "'g rng \<Rightarrow> bool" where
  "rng_ok R = (\<forall>g n. mset (fst (rng_permutation R g n)) = mset [0..<n])"

definition np_random_seed :: "'g rng \<Rightarrow> int \<Rightarrow> 'g \<Rightarrow> 'g" where
  "np_random_seed R s g = rng_seed R s"

definition take_rows :: "'a list \<Rightarrow> nat list \<Rightarrow> 'a list" where
  "take_rows rows idx = map (\<lambda>i. rows ! i) idx"

definition sample_frac_1 :: "'g rng \<Rightarrow> 'g \<Rightarrow> 'a list \<Rightarrow> 'a list \<times> 'g" where
  "sample_frac_1 R g rows =
     (case rng_permutation R g (length rows) of (p, g') \<Rightarrow> (take_rows rows p, g'))"

definition sample_n :: "'g rng \<Rightarrow> nat \<Rightarrow> int \<Rightarrow> 'a list \<Rightarrow> 'a list" where
  "sample_n R k random_state rows =
     take_rows rows (take k (fst (rng_permutation R (rng_seed R random_state) (length rows))))"

subsection \<open>Band selection and mask\<close>

text \<open>\<open>int(np.argmin(np.abs(wavelengths - target)))\<close>.\<close>

definition nearest_band :: "fl list \<Rightarrow> fl \<Rightarrow> error + nat" where
  "nearest_band wavelengths target = np_argmin (map (\<lambda>w. fl_abs (fl_sub w target)) wavelengths)"

text \<open>\<open>img[:, :, k]\<close>: band \<open>k\<close> of every pixel; an index past the bands is an error.\<close>

definition read_band :: "cube \<Rightarrow> nat \<Rightarrow> error + fl list list" where
  "read_band img k =
     (if list_all (list_all (\<lambda>px. k < length px)) img
      then Inr (map (map (\<lambda>px. px ! k)) img)
      else Inl IndexError)"

text \<open>
  The two band indices, \<open>ratio_image = img[:, :, i751] / img[:, :, i676]\<close> and
  \<open>mask = ratio_image > threshold\<close>.
\<close>

definition ratio_mask :: "cube \<Rightarrow> fl list \<Rightarrow> fl \<Rightarrow> error + bool list list" where
  "ratio_mask img wavelengths threshold =
     (case nearest_band wavelengths (Fin 751) of
        Inl e \<Rightarrow> Inl e
      | Inr wavelength_751_index \<Rightarrow>
     (case nearest_band wavelengths (Fin 676) of
        Inl e \<Rightarrow> Inl e
      | Inr wavelength_676_index \<Rightarrow>
     (case read_band img wavelength_751_index of
        Inl e \<Rightarrow> Inl e
      | Inr band_751 \<Rightarrow>
     (case read_band img wavelength_676_index of
        Inl e \<Rightarrow> Inl e
      | Inr band_676 \<Rightarrow>
          let ratio_image = map2 (map2 fl_div) band_751 band_676
          in Inr (map (map (\<lambda>ratio. fl_less threshold ratio)) ratio_image)))))"

text \<open>
  \<open>imshow(img, (86, 52, 18))\<close>, called twice between the mask and the spectra: it reads
  the three bands of the image to show them, and a band index past the bands of the
  image is an \<open>IndexError\<close>. The figure is not modelled. \<open>bands_at_least n img\<close>:
  the image has a row, every row has a pixel and every pixel has \<open>n\<close> bands or more
  (a cube without a pixel has no pixel to count the bands of).
\<close>

definition imshow :: "cube \<Rightarrow> nat \<times> nat \<times> nat \<Rightarrow> error + unit" where
  "imshow img bands =
     (case bands of
        (r, g, b) \<Rightarrow>
          (case read_band img r of
             Inl e \<Rightarrow> Inl e
           | Inr _ \<Rightarrow>
          (case read_band img g of
             Inl e \<Rightarrow> Inl e
           | Inr _ \<Rightarrow>
          (case read_band img b of
             Inl e \<Rightarrow> Inl e
           | Inr _ \<Rightarrow> Inr ()))))"

definition bands_at_least :: "nat \<Rightarrow> cube \<Rightarrow> bool" where
  "bands_at_least n img =
     (img \<noteq> [] \<and> list_all (\<lambda>row. row \<noteq> [] \<and> list_all (\<lambda>px. n \<le> length px) row) img)"

subsection \<open>Spectral table and quality filter\<close>

text \<open>
  The spectra of the mask's pixels in the order of \<open>np.argwhere\<close>. The
  \<open>reshape(len(spectra_data), -1)\<close> of an empty array raises \<open>ValueError\<close> (the free
  extent of a reshape to \<open>(0, -1)\<close> is undetermined), and so does the DataFrame
  constructor when the rows are not as long as the list of column names, one name per
  wavelength, as it also would on an empty array.
\<close>

definition spectral_table :: "cube \<Rightarrow> fl list \<Rightarrow> bool list list \<Rightarrow> error + fl list list" where
  "spectral_table img wavelengths m =
     (let spectra_data = map (\<lambda>(x, y). img ! x ! y) (np_argwhere m)
      in if spectra_data = [] then Inl ValueError
         else if list_all (\<lambda>row. length row = length wavelengths) spectra_data
         then Inr spectra_data
         else Inl ValueError)"

text \<open>\<open>df[row_means >= quality_filter_threshold]\<close> with \<open>row_means = df.mean(axis=1)\<close>.\<close>

definition quality_filter :: "fl list list \<Rightarrow> fl \<Rightarrow> fl list list" where
  "quality_filter d quality_filter_threshold =
     filter (\<lambda>row. fl_le quality_filter_threshold (nanmean row)) d"

subsection \<open>Grouping, subsampling and the whole run\<close>

text \<open>
  \<open>int(len(averaged_df_shuffled) * 0.03)\<close>: the product is a double and \<open>int\<close> truncates
  it. For a row count \<open>n\<close> the result is \<open>3 * n div 100\<close>: the double nearest 0.03 lies
  below it by less than 2 to the power -54 of its value, so the rounded product is the
  integer \<open>3 * n / 100\<close> whenever that is one, and has its integer part otherwise, for
  every count a table can have.
\<close>

definition top_3_percent :: "nat \<Rightarrow> nat" where
  "top_3_percent n = 3 * n div 100"

record extraction =
  mask_array :: "bool list list"
  df :: "fl list list"
  filtered_df :: "fl list list"
  averaged_df_shuffled :: "fl list list"
  top_3_percent_df :: "fl list list"

text \<open>
  \<open>process_image\<close>, with the image given by its cube and its wavelengths, and with the
  state \<open>g0\<close> of the global generator at entry. The result is the tables and the state
  of the global generator at exit, or the exception raised. The steps are the mask, the
  two renderings of the bands 86, 52 and 18, the spectral table, the quality filter,
  the grouping and the subsample. The plots of the spectra, the CSV and the report
  write files and return nothing the tables depend on; they are taken to succeed and
  are not modelled. A \<open>group_size\<close> of \<open>None\<close> is replaced by the number of filtered
  rows; \<open>len(filtered_df) // group_size\<close> raises \<open>ZeroDivisionError\<close> on zero and is
  the floor quotient otherwise; the groups are the slices
  \<open>iloc[i*group_size:(i+1)*group_size]\<close> for \<open>i\<close> in \<open>range(num_groups)\<close>, which is
  empty unless \<open>num_groups\<close> is positive.
\<close>

definition process_image ::
  "'g rng \<Rightarrow> 'g \<Rightarrow> cube \<Rightarrow> fl list \<Rightarrow> int option \<Rightarrow> fl \<Rightarrow> fl \<Rightarrow> error + extraction \<times> 'g"
where
  "process_image R g0 img wavelengths group_size threshold quality_filter_threshold =
     (case ratio_mask img wavelengths threshold of
        Inl e \<Rightarrow> Inl e
      | Inr m \<Rightarrow>
     (case imshow img (86, 52, 18) of
        Inl e \<Rightarrow> Inl e
      | Inr _ \<Rightarrow>
     (case imshow img (86, 52, 18) of
        Inl e \<Rightarrow> Inl e
      | Inr _ \<Rightarrow>
     (case spectral_table img wavelengths m of
        Inl e \<Rightarrow> Inl e
      | Inr d \<Rightarrow>
          let filtered = quality_filter d quality_filter_threshold;
              gs = (case group_size of None \<Rightarrow> int (length filtered) | Some n \<Rightarrow> n);
              g1 = np_random_seed R 42 g0
          in if gs = 0 then Inl ZeroDivisionError
             else
               let num_groups = int (length filtered) div gs;
                   (shuffled_df, g2) = sample_frac_1 R g1 filtered;
                   averaged_rows =
                     map (\<lambda>i. column_means (length wavelengths)
                                 (take (nat gs) (drop (i * nat gs) shuffled_df)))
                       [0..<nat num_groups];
                   top_3_percent_count = top_3_percent (length averaged_rows)
               in Inr (\<lparr>mask_array = m, df = d, filtered_df = filtered,
                         averaged_df_shuffled = averaged_rows,
                         top_3_percent_df = sample_n R top_3_percent_count 42 averaged_rows\<rparr>,
                       g2)))))"

text \<open>
  The value of \<open>averaged_rows\<close> in \<open>process_image\<close> as a function of the filtered
  table, for the proofs below.
\<close>

definition grouped_rows :: "'g rng \<Rightarrow> fl list list \<Rightarrow> nat \<Rightarrow> int option \<Rightarrow> fl list list" where
  "grouped_rows R filtered ncolumns group_size =
     (let gs = (case group_size of None \<Rightarrow> int (length filtered) | Some n \<Rightarrow> n)
      in map (\<lambda>i. column_means ncolumns
                   (take (nat gs) (drop (i * nat gs) (fst (sample_frac_1 R (rng_seed R 42) filtered)))))
           [0..<nat (int (length filtered) div gs)])"

section \<open>Example data\<close>

text \<open>
  The examples are images of 87 bands, the least number for which the bands 86, 52 and
  18 that \<open>process_image\<close> renders exist. Band 0 lies at 676 nm and band 1 at 751 nm;
  the other 85 lie at 760 nm and above. \<open>example_pixel a b c\<close> has the value \<open>a\<close> at
  676 nm, \<open>b\<close> at 751 nm and \<open>c\<close> in every other band. The examples draw from a
  generator that stands in for numpy's: its state is a counter and its permutation is
  the reversal.
\<close>

definition example_wavelengths :: "fl list" where
  "example_wavelengths = Fin 676 # Fin 751 # map (\<lambda>i. Fin (of_nat (760 + i))) [0..<85]"

definition example_pixel :: "rat \<Rightarrow> rat \<Rightarrow> rat \<Rightarrow> fl list" where
  "example_pixel a b c = Fin a # Fin b # replicate 85 (Fin c)"

definition reversing_rng :: "int rng" where
  "reversing_rng = \<lparr>rng_seed = (\<lambda>s. s), rng_permutation = (\<lambda>g n. (rev [0..<n], g + 1))\<rparr>"

section \<open>Properties of the floating-point operations\<close>

lemma fl_le_refl: "\<not> is_nan a \<Longrightarrow> fl_le a a"
  by (cases a) (simp_all add: fl_le_def)

lemma fl_le_trans: "fl_le a b \<Longrightarrow> fl_le b c \<Longrightarrow> fl_le a c"
  by (cases a; cases b; cases c) (simp_all add: fl_le_def)

lemma not_fl_le: "\<not> is_nan a \<Longrightarrow> \<not> is_nan b \<Longrightarrow> \<not> fl_le a b \<Longrightarrow> fl_less b a"
  by (cases a; cases b) (simp_all add: fl_le_def fl_less_def)

lemma fl_less_le_trans: "fl_less a b \<Longrightarrow> fl_le b c \<Longrightarrow> fl_less a c"
  by (cases a; cases b; cases c) (simp_all add: fl_le_def fl_less_def)

lemma fl_less_imp_le: "fl_less a b \<Longrightarrow> fl_le a b"
  by (cases a; cases b) (simp_all add: fl_le_def fl_less_def)

lemma fl_add_Fin: "fl_add (Fin a) (Fin b) = Fin (a + b)"
  by (simp add: fl_add_def)

lemma fl_sub_Fin: "fl_sub (Fin a) (Fin b) = Fin (a - b)"
  by (simp add: fl_sub_def)

lemma fl_abs_sub_Fin: "fl_abs (fl_sub (Fin a) (Fin b)) = Fin \<bar>a - b\<bar>"
  by (simp add: fl_sub_def)

lemma distance_not_nan: "\<not> is_nan w \<Longrightarrow> \<not> is_nan (fl_abs (fl_sub w (Fin t)))"
  by (cases w) (simp_all add: fl_sub_def)

lemma np_clip_range:
  "\<not> is_nan (np_clip x (Fin 0) (Fin 1)) \<Longrightarrow>
     fl_le (Fin 0) (np_clip x (Fin 0) (Fin 1)) \<and> fl_le (np_clip x (Fin 0) (Fin 1)) (Fin 1)"
  by (cases x) (auto simp add: np_clip_def np_maximum_def np_minimum_def fl_le_def fl_less_def)

lemma np_clip_nan: "is_nan (np_clip x (Fin 0) (Fin 1)) \<longleftrightarrow> is_nan x"
  by (cases x) (auto simp add: np_clip_def np_maximum_def np_minimum_def fl_le_def fl_less_def)

section \<open>Calibration\<close>

lemma calibrate_elem_range:
  "is_nan (calibrate_elem r w d) \<or>
   fl_le (Fin 0) (calibrate_elem r w d) \<and> fl_le (calibrate_elem r w d) (Fin 1)"
  using np_clip_range[of "fl_div (fl_sub r d) (fl_sub w d)"]
  by (auto simp add: calibrate_elem_def)

lemma calibrate_elem_nan_iff:
  "is_nan (calibrate_elem (Fin r) (Fin w) (Fin d)) \<longleftrightarrow> r = d \<and> w = d"
  by (simp add: calibrate_elem_def np_clip_nan fl_sub_Fin fl_div_def is_zero_def
      signed_inf_def signed_zero_def)

lemma map3_nth:
  "i < length xs \<Longrightarrow> length ys = length xs \<Longrightarrow> length zs = length xs \<Longrightarrow>
   map3 f xs ys zs ! i = f (xs ! i) (ys ! i) (zs ! i)"
  by (simp add: map3_def)

lemma extents_eq_lengths:
  assumes "extents a = extents b"
  shows "length a = length b"
    and "i < length b \<Longrightarrow> length (a ! i) = length (b ! i)"
    and "i < length b \<Longrightarrow> j < length (b ! i) \<Longrightarrow> length (a ! i ! j) = length (b ! i ! j)"
proof -
  show l: "length a = length b"
    using assms by (metis extents_def length_map)
  have m: "map length (a ! i) = map length (b ! i)" if "i < length b" for i
    using assms that l by (metis extents_def nth_map)
  show l2: "length (a ! i) = length (b ! i)" if "i < length b"
    using m[OF that] by (metis length_map)
  show "length (a ! i ! j) = length (b ! i ! j)" if "i < length b" "j < length (b ! i)"
    using m[OF that(1)] that l2[OF that(1)] by (metis nth_map)
qed

text \<open>
  Every element of the calibrated cube is \<open>calibrate_elem\<close> of the three elements at
  its position, hence NaN or within [0, 1]; on finite inputs it is NaN exactly where
  raw, white and dark agree.
\<close>

lemma apply_calibration_elem:
  assumes "apply_calibration raw_image white_ref dark_ref = Inr c"
    and "i < length raw_image" and "j < length (raw_image ! i)" and "k < length (raw_image ! i ! j)"
  shows "c ! i ! j ! k =
           calibrate_elem (raw_image ! i ! j ! k) (white_ref ! i ! j ! k) (dark_ref ! i ! j ! k)"
proof -
  have w: "extents white_ref = extents raw_image" and d: "extents dark_ref = extents raw_image"
    using assms(1) by (auto simp add: apply_calibration_def split: if_splits)
  have c: "c = map3 (map3 (map3 calibrate_elem)) raw_image white_ref dark_ref"
    using assms(1) w d by (simp add: apply_calibration_def)
  show ?thesis
    using assms(2,3,4)
    by (simp add: c map3_nth extents_eq_lengths[OF w] extents_eq_lengths[OF d])
qed

text \<open>
  Claim C2: for every raw, white and dark cube of one shape, every element of the
  calibrated cube lies within [0, 1], also where white equals dark. The code does not
  keep this: on the cubes of one element in which raw, white and dark all hold 4095,
  the quotient is 0 / 0, and the clipped result is NaN, which lies in no interval.
\<close>

theorem calibration_nan_where_white_equals_dark:
  "apply_calibration [[[Fin 4095]]] [[[Fin 4095]]] [[[Fin 4095]]] = Inr [[[NaN]]] \<and>
   \<not> fl_le (Fin 0) NaN \<and> \<not> fl_le NaN (Fin 1)"
  by (simp add: apply_calibration_def extents_def map3_def calibrate_elem_def
      fl_sub_def fl_div_def is_zero_def np_clip_def np_maximum_def np_minimum_def fl_le_def)

lemma py_round_of_nat: "py_round (rat_of_nat n) = int n"
  by (simp add: py_round_def)

lemma lerp_zero: "is_fin a \<Longrightarrow> is_fin b \<Longrightarrow> lerp 0 a b = a"
  by (cases a; cases b)
     (auto simp add: lerp_def fl_mul_def fl_add_def is_zero_def signed_zero_def)

text \<open>At the factor 1 an axis keeps its entries, when interpolation with weight 0 for the
  neighbour returns the entry.\<close>

lemma zoom_axis_unit:
  assumes "\<And>i. i < length xs \<Longrightarrow> mix 0 (xs ! i) (xs ! min (Suc i) (length xs - 1)) = xs ! i"
  shows "zoom_axis mix 1 xs = xs"
proof (rule nth_equalityI)
  show "length (zoom_axis mix 1 xs) = length xs"
    by (simp add: zoom_axis_def Let_def py_round_of_nat)
next
  fix j assume "j < length (zoom_axis mix 1 xs)"
  then have j: "j < length xs" by (simp add: zoom_axis_def Let_def py_round_of_nat)
  define c where "c = (if length xs \<le> 1 then 0
                       else rat_of_nat j * rat_of_nat (length xs - 1) / rat_of_nat (length xs - 1))"
  have c: "c = rat_of_nat j"
  proof (cases "length xs \<le> 1")
    case True
    then have "j = 0" using j by simp
    then show ?thesis using True by (simp add: c_def)
  next
    case False
    then have "rat_of_nat (length xs - 1) \<noteq> 0" by simp
    then show ?thesis using False by (simp add: c_def)
  qed
  have "zoom_axis mix 1 xs ! j =
          mix (c - of_int \<lfloor>c\<rfloor>) (xs ! nat \<lfloor>c\<rfloor>) (xs ! min (Suc (nat \<lfloor>c\<rfloor>)) (length xs - 1))"
    using j by (simp add: zoom_axis_def Let_def c_def py_round_of_nat)
  also have "\<dots> = mix 0 (xs ! j) (xs ! min (Suc j) (length xs - 1))"
    by (simp add: c)
  also have "\<dots> = xs ! j"
    by (rule assms[OF j])
  finally show "zoom_axis mix 1 xs ! j = xs ! j" .
qed

lemma map2_lerp_zero:
  assumes "list_all is_fin p" "list_all is_fin q" "length q = length p"
  shows "map2 (lerp 0) p q = p"
  using assms by (auto simp add: list_eq_iff_nth_eq list_all_length lerp_zero)

lemma zoom_unit:
  assumes "is_array c" and "finite_cube c"
  shows "zoom c (1, 1, 1) = c"
proof -
  obtain r k b where s: "shape_of c = (r, k, b)" by (cases "shape_of c") auto
  have rows: "length row = k \<and> list_all (\<lambda>px. length px = b) row" if "row \<in> set c" for row
    using assms(1) that by (auto simp add: is_array_def s list_all_iff)
  have fin: "list_all is_fin px" if "row \<in> set c" "px \<in> set row" for row px
    using assms(2) that by (auto simp add: finite_cube_def list_all_iff)
  have px: "zoom_axis lerp 1 px = px" if "row \<in> set c" "px \<in> set row" for row px
  proof (rule zoom_axis_unit)
    fix i assume "i < length px"
    then show "lerp 0 (px ! i) (px ! min (Suc i) (length px - 1)) = px ! i"
      using fin[OF that] by (intro lerp_zero) (auto simp add: list_all_length)
  qed
  have inner: "map (map (zoom_axis lerp 1)) c = c"
    by (auto simp add: map_idI px)
  have row: "zoom_axis (\<lambda>t. map2 (lerp t)) 1 row = row" if "row \<in> set c" for row
  proof (rule zoom_axis_unit)
    fix i assume i: "i < length row"
    have a: "row ! i \<in> set row" using i by simp
    have b: "row ! min (Suc i) (length row - 1) \<in> set row" using i by simp
    show "map2 (lerp 0) (row ! i) (row ! min (Suc i) (length row - 1)) = row ! i"
      using fin[OF that a] fin[OF that b] rows[OF that] a b
      by (intro map2_lerp_zero) (auto simp add: list_all_iff)
  qed
  have middle: "map (zoom_axis (\<lambda>t. map2 (lerp t)) 1) c = c"
    by (auto simp add: map_idI row)
  have outer: "zoom_axis (\<lambda>t. map2 (map2 (lerp t))) 1 c = c"
  proof (rule zoom_axis_unit)
    fix i assume i: "i < length c"
    let ?p = "c ! i" and ?q = "c ! min (Suc i) (length c - 1)"
    have a: "?p \<in> set c" using i by simp
    have b: "?q \<in> set c" using i by simp
    have len: "length ?q = length ?p" using rows[OF a] rows[OF b] by simp
    have "map2 (map2 (lerp 0)) ?p ?q ! j = ?p ! j" if j: "j < length ?p" for j
    proof -
      have pj: "?p ! j \<in> set ?p" and qj: "?q ! j \<in> set ?q" using j len by simp_all
      have "length (?q ! j) = length (?p ! j)"
        using rows[OF a] rows[OF b] pj qj by (auto simp add: list_all_iff)
      then have "map2 (lerp 0) (?p ! j) (?q ! j) = ?p ! j"
        using fin[OF a pj] fin[OF b qj] by (intro map2_lerp_zero)
      then show ?thesis using j len by simp
    qed
    then show "map2 (map2 (lerp 0)) ?p ?q = ?p"
      using len by (intro nth_equalityI) simp_all
  qed
  show ?thesis
    by (simp only: zoom_def prod.case inner middle outer)
qed

text \<open>Away from the factor 1 the interpolation makes new values: a row of two pixels
  scaled to three gets their mean in the middle.\<close>

lemma zoom_axis_example:
  "zoom_axis (\<lambda>t. map2 (lerp t)) (3/2) [[Fin 0], [Fin 2]] = [[Fin 0], [Fin 1], [Fin 2]]"
proof -
  have n: "length [[Fin 0], [Fin 2]] = 2" by simp
  have r: "py_round 3 = 3"
    using py_round_of_nat[of 3] by simp
  have u: "[0..<3] = [0, 1, 2]"
    by (simp add: upt_rec numeral_3_eq_3)
  have f: "\<lfloor>1 / 2 :: rat\<rfloor> = 0" by (simp add: floor_eq_iff)
  show ?thesis
    unfolding zoom_axis_def Let_def n
    by (simp add: r u f lerp_def fl_mul_def fl_add_def is_zero_def signed_zero_def)
qed

text \<open>
  Claim C9: resampling a reference cube to its own shape is the identity: the row and
  column factors are 1, the band factor is 1, and the interpolation of order 1
  reproduces every element. The cube is an array with at least one row and one column,
  and its elements are finite numbers. The factors are the code's: the quotients of the
  target extents by the cube's own and 1 for the bands, hence all 1 at the cube's own
  shape. The interpolation is the library's, as the specification describes it. In
  \<open>process_directory\<close> a reference of the raw image's shape is not resampled at all.
\<close>

theorem resample_to_own_shape:
  assumes "is_array ref" and "finite_cube ref"
    and "shape_of ref = (r, k, b)" and "0 < r" and "0 < k"
  shows "(\<forall>tr tk tb. resize_hyperspectral_image ref (tr, tk, tb) =
            Inr (zoom ref (of_nat tr / of_nat r, of_nat tk / of_nat k, 1))) \<and>
         zoom_factors (shape_of ref) (shape_of ref) = Inr (1, 1, 1) \<and>
         zoom ref (1, 1, 1) = ref \<and>
         resize_hyperspectral_image ref (shape_of ref) = Inr ref \<and>
         (\<forall>raw_image. shape_of raw_image = shape_of ref \<longrightarrow>
            resize_if_needed raw_image ref = Inr ref)"
  using assms(3,4,5) zoom_unit[OF assms(1,2)]
  by (simp add: zoom_factors_def resize_hyperspectral_image_def resize_if_needed_def)

text \<open>A reference of two rows, two columns and two bands.\<close>

theorem resample_to_own_shape_witness:
  "is_array [[[Fin 1, Fin 2], [Fin 3, Fin 4]], [[Fin 5, Fin 6], [Fin 7, Fin 8]]] \<and>
   finite_cube [[[Fin 1, Fin 2], [Fin 3, Fin 4]], [[Fin 5, Fin 6], [Fin 7, Fin 8]]] \<and>
   shape_of [[[Fin 1, Fin 2], [Fin 3, Fin 4]], [[Fin 5, Fin 6], [Fin 7, Fin 8]]] = (2, 2, 2) \<and>
   zoom [[[Fin 1, Fin 2], [Fin 3, Fin 4]], [[Fin 5, Fin 6], [Fin 7, Fin 8]]] (1, 1, 1) =
     [[[Fin 1, Fin 2], [Fin 3, Fin 4]], [[Fin 5, Fin 6], [Fin 7, Fin 8]]] \<and>
   resize_hyperspectral_image [[[Fin 1, Fin 2], [Fin 3, Fin 4]], [[Fin 5, Fin 6], [Fin 7, Fin 8]]]
       (2, 2, 2) =
     Inr [[[Fin 1, Fin 2], [Fin 3, Fin 4]], [[Fin 5, Fin 6], [Fin 7, Fin 8]]]"
proof -
  let ?c = "[[[Fin 1, Fin 2], [Fin 3, Fin 4]], [[Fin 5, Fin 6], [Fin 7, Fin 8]]]"
  have s: "shape_of ?c = (2, 2, 2)" by (simp add: shape_of_def)
  have a: "is_array ?c" by (simp add: is_array_def shape_of_def)
  have f: "finite_cube ?c" by (simp add: finite_cube_def)
  show ?thesis
    using resample_to_own_shape[OF a f s] s a f by simp
qed

section \<open>Band selection\<close>

lemma argmin_loop_spec:
  assumes "drop i ds = xs" "mi < i" "i \<le> length ds"
    and "\<forall>x\<in>set ds. \<not> is_nan x"
    and "mp = ds ! mi"
    and "\<forall>j<i. fl_le mp (ds ! j)"
    and "\<forall>j<mi. fl_less mp (ds ! j)"
  shows "argmin_loop xs i mp mi < length ds \<and>
         (\<forall>j<length ds. fl_le (ds ! argmin_loop xs i mp mi) (ds ! j)) \<and>
         (\<forall>j<argmin_loop xs i mp mi. fl_less (ds ! argmin_loop xs i mp mi) (ds ! j))"
  using assms
proof (induction xs arbitrary: i mp mi)
  case Nil
  then have "length ds = i" by simp
  with Nil show ?case by simp
next
  case (Cons x xs)
  have len: "i < length ds"
    using Cons.prems(1) by (metis drop_eq_Nil list.distinct(1) not_le)
  have x: "ds ! i = x"
    using Cons.prems(1) len by (metis Cons_nth_drop_Suc list.inject)
  have rest: "drop (Suc i) ds = xs"
    using Cons.prems(1) len by (metis Cons_nth_drop_Suc list.inject)
  have nn_mp: "\<not> is_nan mp"
    using Cons.prems(2,3,4,5) by simp
  have nn_x: "\<not> is_nan x"
    using Cons.prems(4) len x by (metis nth_mem)
  show ?case
  proof (cases "fl_le mp x")
    case True
    have "\<forall>j<Suc i. fl_le mp (ds ! j)"
      using Cons.prems(6) True x by (simp add: less_Suc_eq)
    then have "argmin_loop xs (Suc i) mp mi < length ds \<and>
         (\<forall>j<length ds. fl_le (ds ! argmin_loop xs (Suc i) mp mi) (ds ! j)) \<and>
         (\<forall>j<argmin_loop xs (Suc i) mp mi. fl_less (ds ! argmin_loop xs (Suc i) mp mi) (ds ! j))"
      using Cons.IH[of "Suc i" mi mp] rest Cons.prems len by simp
    then show ?thesis using True nn_mp by simp
  next
    case False
    then have lt: "fl_less x mp" using not_fl_le nn_mp nn_x by blast
    have a: "\<forall>j<Suc i. fl_le x (ds ! j)"
      using Cons.prems(6) lt x nn_x
      by (metis fl_le_refl fl_le_trans fl_less_imp_le less_Suc_eq)
    have b: "\<forall>j<i. fl_less x (ds ! j)"
      using Cons.prems(6) lt by (metis fl_less_le_trans)
    have "argmin_loop xs (Suc i) x i < length ds \<and>
         (\<forall>j<length ds. fl_le (ds ! argmin_loop xs (Suc i) x i) (ds ! j)) \<and>
         (\<forall>j<argmin_loop xs (Suc i) x i. fl_less (ds ! argmin_loop xs (Suc i) x i) (ds ! j))"
      using Cons.IH[of "Suc i" i x] rest a b x len Cons.prems(4) by simp
    then show ?thesis using False nn_mp by simp
  qed
qed

lemma np_argmin_spec:
  assumes "ds \<noteq> []" and "\<forall>x\<in>set ds. \<not> is_nan x"
  shows "\<exists>i. np_argmin ds = Inr i \<and> i < length ds \<and>
           (\<forall>j<length ds. fl_le (ds ! i) (ds ! j)) \<and>
           (\<forall>j<i. fl_less (ds ! i) (ds ! j))"
proof -
  obtain x rest where ds: "ds = x # rest" using assms(1) by (cases ds) auto
  have nn: "\<not> is_nan x" using assms(2) ds by simp
  have "argmin_loop rest 1 x 0 < length ds \<and>
         (\<forall>j<length ds. fl_le (ds ! argmin_loop rest 1 x 0) (ds ! j)) \<and>
         (\<forall>j<argmin_loop rest 1 x 0. fl_less (ds ! argmin_loop rest 1 x 0) (ds ! j))"
    by (rule argmin_loop_spec) (use ds nn assms(2) in \<open>auto simp: fl_le_refl\<close>)
  then show ?thesis by (simp add: np_argmin_def ds)
qed

lemma argmin_loop_keep:
  "\<not> is_nan mp \<Longrightarrow> \<forall>x\<in>set xs. fl_le mp x \<Longrightarrow> argmin_loop xs i mp mi = mi"
  by (induction xs arbitrary: i) simp_all

lemma length_example_wavelengths: "length example_wavelengths = 87"
  by (simp add: example_wavelengths_def)

lemma example_wavelengths_not_nan: "\<forall>w\<in>set example_wavelengths. \<not> is_nan w"
  by (auto simp: example_wavelengths_def)

lemma example_band_676: "nearest_band example_wavelengths (Fin 676) = Inr 0"
  by (simp add: nearest_band_def example_wavelengths_def np_argmin_def fl_abs_sub_Fin
      argmin_loop_keep fl_le_def o_def)

lemma example_band_751: "nearest_band example_wavelengths (Fin 751) = Inr 1"
  by (simp add: nearest_band_def example_wavelengths_def np_argmin_def fl_abs_sub_Fin
      argmin_loop_keep fl_le_def o_def)

text \<open>
  Claim C7: for every non-empty sequence of wavelengths, band selection returns the
  index of the wavelength with the least absolute difference from the target, and the
  lowest such index when several attain it; on the wavelengths 675, 676, 677 and the
  target 676 it returns 1. The wavelengths are numbers (none is NaN) and the target is
  finite, as 751 and 676 are: the difference at the index returned is at most the
  difference at every index and strictly less than the difference at every earlier one.
\<close>

theorem nearest_band_minimal_first:
  assumes "wavelengths \<noteq> []" and "\<forall>w\<in>set wavelengths. \<not> is_nan w"
  shows "(\<exists>i. nearest_band wavelengths (Fin t) = Inr i \<and> i < length wavelengths \<and>
           (\<forall>j<length wavelengths.
              fl_le (fl_abs (fl_sub (wavelengths ! i) (Fin t))) (fl_abs (fl_sub (wavelengths ! j) (Fin t)))) \<and>
           (\<forall>j<i.
              fl_less (fl_abs (fl_sub (wavelengths ! i) (Fin t))) (fl_abs (fl_sub (wavelengths ! j) (Fin t))))) \<and>
         nearest_band [Fin 675, Fin 676, Fin 677] (Fin 676) = Inr 1"
proof
  let ?ds = "map (\<lambda>w. fl_abs (fl_sub w (Fin t))) wavelengths"
  have "?ds \<noteq> []" using assms(1) by simp
  moreover have "\<forall>x\<in>set ?ds. \<not> is_nan x"
    using assms(2) by (auto simp: distance_not_nan)
  ultimately obtain i where i: "np_argmin ?ds = Inr i" "i < length ?ds"
    "\<forall>j<length ?ds. fl_le (?ds ! i) (?ds ! j)" "\<forall>j<i. fl_less (?ds ! i) (?ds ! j)"
    using np_argmin_spec[of ?ds] by blast
  show "\<exists>i. nearest_band wavelengths (Fin t) = Inr i \<and> i < length wavelengths \<and>
           (\<forall>j<length wavelengths.
              fl_le (fl_abs (fl_sub (wavelengths ! i) (Fin t))) (fl_abs (fl_sub (wavelengths ! j) (Fin t)))) \<and>
           (\<forall>j<i.
              fl_less (fl_abs (fl_sub (wavelengths ! i) (Fin t))) (fl_abs (fl_sub (wavelengths ! j) (Fin t))))"
    using i by (intro exI[of _ i]) (simp add: nearest_band_def)
next
  show "nearest_band [Fin 675, Fin 676, Fin 677] (Fin 676) = Inr 1"
    by (simp add: nearest_band_def np_argmin_def fl_sub_def fl_le_def)
qed

theorem nearest_band_minimal_first_witness:
  "example_wavelengths \<noteq> [] \<and>
   (\<exists>i. nearest_band example_wavelengths (Fin 751) = Inr i \<and> i = 1 \<and>
        i < length example_wavelengths \<and>
        (\<forall>j<length example_wavelengths.
           fl_le (fl_abs (fl_sub (example_wavelengths ! i) (Fin 751)))
                 (fl_abs (fl_sub (example_wavelengths ! j) (Fin 751)))))"
proof -
  have n: "example_wavelengths \<noteq> []" by (simp add: example_wavelengths_def)
  show ?thesis
    using nearest_band_minimal_first[OF n example_wavelengths_not_nan, of 751] n
    by (auto simp add: example_band_751)
qed

section \<open>The ratio mask\<close>

lemma map2_map_map: "map2 f (map g xs) (map h xs) = map (\<lambda>x. f (g x) (h x)) xs"
  by (induction xs) simp_all

lemma ratio_mask_eq:
  assumes "ratio_mask img wavelengths threshold = Inr m"
    and "nearest_band wavelengths (Fin 751) = Inr k751"
    and "nearest_band wavelengths (Fin 676) = Inr k676"
  shows "m = map (map (\<lambda>px. fl_less threshold (fl_div (px ! k751) (px ! k676)))) img"
  using assms
  by (auto simp add: ratio_mask_def read_band_def map2_map_map o_def split: if_splits)

lemma np_argwhere_empty:
  assumes "\<forall>row\<in>set m. True \<notin> set row"
  shows "np_argwhere m = []"
proof -
  have "\<not> m ! x ! y" if "x < length m" "y < length (m ! x)" for x y
    using assms that by (metis nth_mem)
  then show ?thesis by (simp add: np_argwhere_def)
qed

lemma example_mask:
  "ratio_mask [[example_pixel a b c]] example_wavelengths thr =
     Inr [[fl_less thr (fl_div (Fin b) (Fin a))]]"
  by (simp add: ratio_mask_def example_band_676 example_band_751 read_band_def example_pixel_def)

lemma example_row_mask:
  "ratio_mask [replicate n (example_pixel a b c)] example_wavelengths thr =
     Inr [replicate n (fl_less thr (fl_div (Fin b) (Fin a)))]"
  by (simp add: ratio_mask_def example_band_676 example_band_751 read_band_def example_pixel_def
      list_all_iff map2_map_map)

lemma concat_map_singleton: "concat (map (\<lambda>y. [f y]) xs) = map f xs"
  by (induction xs) simp_all

lemma np_argwhere_row_true: "np_argwhere [replicate n True] = map (Pair 0) [0..<n]"
proof -
  have h: "map (\<lambda>y. if replicate n True ! y then [(0::nat, y)] else []) [0..<n] =
        map (\<lambda>y. [(0, y)]) [0..<n]"
    by (rule map_cong) simp_all
  have "np_argwhere [replicate n True] =
          concat (map (\<lambda>y. if replicate n True ! y then [(0::nat, y)] else []) [0..<n])"
    by (simp add: np_argwhere_def)
  also have "\<dots> = map (Pair 0) [0..<n]"
    unfolding h by (rule concat_map_singleton)
  finally show ?thesis .
qed

text \<open>
  Claim C3: at every pixel the mask is the unclamped ratio of the 751 nm band to the
  676 nm band compared strictly greater than the threshold, and it is false wherever
  that ratio is NaN or infinite. The first half holds. The second holds for NaN and for
  the negative infinity; a ratio of positive infinity exceeds every finite threshold,
  and the mask is true there. The amended claim: the mask is the comparison of the
  unclamped ratio with the threshold; it is false where the ratio is NaN or negative
  infinity, and where the ratio is positive infinity it is true unless the threshold is
  NaN or positive infinity itself.
\<close>

theorem mask_pixel:
  assumes "ratio_mask img wavelengths threshold = Inr m"
    and "nearest_band wavelengths (Fin 751) = Inr k751"
    and "nearest_band wavelengths (Fin 676) = Inr k676"
    and "r < length img" and "c < length (img ! r)"
  shows "m ! r ! c = fl_less threshold (fl_div (img ! r ! c ! k751) (img ! r ! c ! k676)) \<and>
         (is_nan (fl_div (img ! r ! c ! k751) (img ! r ! c ! k676)) \<longrightarrow> \<not> m ! r ! c) \<and>
         (fl_div (img ! r ! c ! k751) (img ! r ! c ! k676) = NInf \<longrightarrow> \<not> m ! r ! c) \<and>
         (fl_div (img ! r ! c ! k751) (img ! r ! c ! k676) = PInf \<longrightarrow>
            (m ! r ! c \<longleftrightarrow> \<not> is_nan threshold \<and> threshold \<noteq> PInf))"
proof -
  have "m ! r ! c = fl_less threshold (fl_div (img ! r ! c ! k751) (img ! r ! c ! k676))"
    using ratio_mask_eq[OF assms(1,2,3)] assms(4,5) by simp
  then show ?thesis
    by (cases threshold) (auto simp add: fl_less_def)
qed

text \<open>
  A pixel with 0.5 at 751 nm and 0 at 676 nm: the ratio is positive infinity and the
  mask, at the threshold 1.5, is true.
\<close>

theorem mask_positive_infinity_counterexample:
  "nearest_band example_wavelengths (Fin 751) = Inr 1 \<and>
   nearest_band example_wavelengths (Fin 676) = Inr 0 \<and>
   fl_div ([[example_pixel 0 (1/2) (1/8)]] ! 0 ! 0 ! 1) ([[example_pixel 0 (1/2) (1/8)]] ! 0 ! 0 ! 0) = PInf \<and>
   ratio_mask [[example_pixel 0 (1/2) (1/8)]] example_wavelengths (Fin (3/2)) = Inr [[True]]"
  by (simp add: example_band_751 example_band_676 example_mask)
     (simp add: example_pixel_def fl_div_def is_zero_def signed_inf_def fl_less_def)

theorem mask_pixel_witness:
  "ratio_mask [[example_pixel (1/8) (1/2) (1/8)]] example_wavelengths (Fin (3/2)) = Inr [[True]] \<and>
   fl_div ([[example_pixel (1/8) (1/2) (1/8)]] ! 0 ! 0 ! 1) ([[example_pixel (1/8) (1/2) (1/8)]] ! 0 ! 0 ! 0) = Fin 4 \<and>
   [[True]] ! 0 ! 0 =
     fl_less (Fin (3/2))
       (fl_div ([[example_pixel (1/8) (1/2) (1/8)]] ! 0 ! 0 ! 1) ([[example_pixel (1/8) (1/2) (1/8)]] ! 0 ! 0 ! 0))"
proof -
  have m: "ratio_mask [[example_pixel (1/8) (1/2) (1/8)]] example_wavelengths (Fin (3/2)) = Inr [[True]]"
    by (simp add: example_mask fl_div_def is_zero_def fl_less_def)
  have v: "fl_div ([[example_pixel (1/8) (1/2) (1/8)]] ! 0 ! 0 ! 1)
             ([[example_pixel (1/8) (1/2) (1/8)]] ! 0 ! 0 ! 0) = Fin 4"
    by (simp add: example_pixel_def fl_div_def is_zero_def)
  show ?thesis
    using mask_pixel[OF m example_band_751 example_band_676, of 0 0] m v by simp
qed

section \<open>The quality filter\<close>

lemma filter_length_mono:
  "(\<And>x. x \<in> set xs \<Longrightarrow> P x \<Longrightarrow> Q x) \<Longrightarrow> length (filter P xs) \<le> length (filter Q xs)"
  by (induction xs) auto

lemma foldl_fl_add_replicate:
  "foldl fl_add (Fin s) (replicate n (Fin c)) = Fin (s + of_nat n * c)"
  by (induction n arbitrary: s) (simp_all add: fl_add_Fin algebra_simps)

lemma nanmean_example_pixel: "nanmean (example_pixel a b c) = Fin ((a + b + 85 * c) / 87)"
  by (simp add: nanmean_def example_pixel_def fl_add_Fin foldl_fl_add_replicate
      fl_div_def is_zero_def Let_def signed_zero_def)

text \<open>
  Claim C8: the quality filter is monotone in its threshold: for every table and all
  thresholds with \<open>t1 <= t2\<close>, no more rows are kept at \<open>t2\<close> than at \<open>t1\<close>, a row being
  kept when its mean over the bands is at least the threshold.
\<close>

theorem quality_filter_monotone:
  "fl_le t1 t2 \<Longrightarrow> length (quality_filter d t2) \<le> length (quality_filter d t1)"
  unfolding quality_filter_def
  by (rule filter_length_mono) (blast intro: fl_le_trans)

theorem quality_filter_monotone_witness:
  "fl_le (Fin (1/100)) (Fin (1/2)) \<and>
   length (quality_filter [[Fin (1/8), Fin (3/8)], [Fin 1, Fin 1]] (Fin (1/2))) = 1 \<and>
   length (quality_filter [[Fin (1/8), Fin (3/8)], [Fin 1, Fin 1]] (Fin (1/100))) = 2 \<and>
   length (quality_filter [[Fin (1/8), Fin (3/8)], [Fin 1, Fin 1]] (Fin (1/2))) \<le>
   length (quality_filter [[Fin (1/8), Fin (3/8)], [Fin 1, Fin 1]] (Fin (1/100)))"
proof -
  have h: "fl_le (Fin (1/100)) (Fin (1/2))" by (simp add: fl_le_def)
  show ?thesis
    using quality_filter_monotone[OF h, of "[[Fin (1/8), Fin (3/8)], [Fin 1, Fin 1]]"] h
    by (simp add: quality_filter_def nanmean_def fl_add_Fin fl_div_def is_zero_def fl_le_def)
qed

section \<open>The whole run\<close>

lemma read_band_ok:
  assumes "bands_at_least n img" and "k < n"
  shows "read_band img k = Inr (map (map (\<lambda>px. px ! k)) img)"
proof -
  have "k < length px" if "row \<in> set img" "px \<in> set row" for row px
    using assms that by (fastforce simp add: bands_at_least_def list_all_iff)
  then show ?thesis
    by (simp add: read_band_def list_all_iff)
qed

lemma imshow_ok: "bands_at_least 87 img \<Longrightarrow> imshow img (86, 52, 18) = Inr ()"
  by (simp add: imshow_def read_band_ok[where n = 87])

lemma imshow_index_error:
  assumes "row \<in> set img" and "px \<in> set row" and "length px < 87"
  shows "imshow img (86, 52, 18) = Inl IndexError"
proof -
  have "\<not> 86 < length px" using assms(3) by simp
  then have "\<not> list_all (list_all (\<lambda>px. 86 < length px)) img"
    using assms(1,2) by (auto simp add: list_all_iff)
  then show ?thesis
    by (simp add: imshow_def read_band_def)
qed

lemma example_bands: "0 < n \<Longrightarrow> bands_at_least 87 [replicate n (example_pixel a b c)]"
  by (auto simp add: bands_at_least_def example_pixel_def list_all_iff)

lemma example_bands_1: "bands_at_least 87 [[example_pixel a b c]]"
  using example_bands[of 1] by simp

lemma example_table: "spectral_table [[example_pixel a b c]] example_wavelengths [[True]] =
     Inr [example_pixel a b c]"
  by (simp add: spectral_table_def np_argwhere_def length_example_wavelengths)
     (simp add: example_pixel_def)

lemma example_selected: "fl_less (Fin (3/2)) (fl_div (Fin (1/2)) (Fin (1/8)))"
  by (simp add: fl_div_def is_zero_def fl_less_def)

lemma example_selected_mask:
  "ratio_mask [[example_pixel (1/8) (1/2) (1/8)]] example_wavelengths (Fin (3/2)) = Inr [[True]]"
  by (simp add: example_mask example_selected)

lemma example_kept:
  "quality_filter [example_pixel (1/8) (1/2) (1/8)] (Fin (1/100)) =
     [example_pixel (1/8) (1/2) (1/8)]"
  by (simp add: quality_filter_def nanmean_example_pixel fl_le_def)

lemma example_row_table:
  assumes "0 < n"
  shows "spectral_table [replicate n (example_pixel a b c)] example_wavelengths [replicate n True] =
     Inr (replicate n (example_pixel a b c))"
proof -
  have "map (\<lambda>(x, y). [replicate n (example_pixel a b c)] ! x ! y) (map (Pair 0) [0..<n]) =
        replicate n (example_pixel a b c)"
    by (simp add: list_eq_iff_nth_eq)
  then show ?thesis
    using assms
    by (simp add: spectral_table_def np_argwhere_row_true length_example_wavelengths list_all_iff)
       (simp add: example_pixel_def)
qed

lemma example_row_kept:
  "fl_le q (Fin ((a + b + 85 * c) / 87)) \<Longrightarrow>
   quality_filter (replicate n (example_pixel a b c)) q = replicate n (example_pixel a b c)"
  by (simp add: quality_filter_def nanmean_example_pixel)

lemma rng_ok_reversing: "rng_ok reversing_rng"
  by (simp add: rng_ok_def reversing_rng_def)

lemma rng_ok_length: "rng_ok R \<Longrightarrow> length (fst (rng_permutation R g n)) = n"
  by (metis rng_ok_def size_mset length_upt diff_zero)

lemma length_grouped_rows:
  "length (grouped_rows R filtered ncolumns group_size) =
     nat (int (length filtered) div
            (case group_size of None \<Rightarrow> int (length filtered) | Some n \<Rightarrow> n))"
  by (simp add: grouped_rows_def Let_def)

lemma sample_n_zero: "sample_n R 0 s rows = []"
  by (simp add: sample_n_def take_rows_def)

lemma length_sample_n:
  "rng_ok R \<Longrightarrow> k \<le> length rows \<Longrightarrow> length (sample_n R k s rows) = k"
  by (simp add: sample_n_def take_rows_def rng_ok_length)

lemma top_3_percent_floor: "int (top_3_percent k) = \<lfloor>rat_of_nat k * (3 / 100)\<rfloor>"
proof -
  have "\<lfloor>rat_of_nat k * (3 / 100)\<rfloor> = \<lfloor>rat_of_int (3 * int k) / rat_of_int 100\<rfloor>"
    by (simp add: mult.commute)
  also have "\<dots> = (3 * int k) div 100"
    by (rule floor_divide_of_int_eq)
  finally show ?thesis by (simp add: top_3_percent_def zdiv_int)
qed

text \<open>The run once the mask is computed, the bands are rendered and the spectral table
  is built.\<close>

lemma process_image_unfold:
  assumes "ratio_mask img wavelengths threshold = Inr m"
    and "imshow img (86, 52, 18) = Inr u"
    and "spectral_table img wavelengths m = Inr d"
  shows "process_image R g0 img wavelengths group_size threshold q =
     (if (case group_size of None \<Rightarrow> int (length (quality_filter d q)) | Some n \<Rightarrow> n) = 0
      then Inl ZeroDivisionError
      else Inr (\<lparr>mask_array = m, df = d, filtered_df = quality_filter d q,
                 averaged_df_shuffled =
                   grouped_rows R (quality_filter d q) (length wavelengths) group_size,
                 top_3_percent_df =
                   sample_n R
                     (top_3_percent
                        (length (grouped_rows R (quality_filter d q) (length wavelengths) group_size)))
                     42 (grouped_rows R (quality_filter d q) (length wavelengths) group_size)\<rparr>,
                snd (sample_frac_1 R (rng_seed R 42) (quality_filter d q))))"
  using assms
  by (simp add: process_image_def grouped_rows_def np_random_seed_def Let_def case_prod_beta)

text \<open>An image with a pixel of fewer than 87 bands ends in the \<open>IndexError\<close> of the
  rendering, whatever the mask.\<close>

lemma narrow_image_raises_index_error:
  assumes "ratio_mask img wavelengths threshold = Inr m"
    and "row \<in> set img" and "px \<in> set row" and "length px < 87"
  shows "process_image R g0 img wavelengths group_size threshold q = Inl IndexError"
  using assms(1) by (simp add: process_image_def imshow_index_error[OF assms(2,3,4)])

text \<open>
  Claim C1: two runs of the extraction on the same cube, wavelengths and parameters
  give the same mask, filtered table, grouped table and subsample. What a run reads
  beside its arguments is the state of the global generator, and \<open>np.random.seed(42)\<close>
  overwrites it before anything is drawn: runs entered in any two states \<open>g1\<close> and
  \<open>g2\<close> return the same tables (or raise the same exception) and leave the same state.
\<close>

theorem process_image_deterministic:
  "process_image R g1 img wavelengths group_size threshold q =
   process_image R g2 img wavelengths group_size threshold q"
  by (simp add: process_image_def np_random_seed_def Let_def split: sum.split)

theorem process_image_deterministic_witness:
  "process_image reversing_rng 0 [[example_pixel (1/8) (1/2) (1/8)]] example_wavelengths
     (Some 20) (Fin (3/2)) (Fin (1/100)) =
   process_image reversing_rng 7 [[example_pixel (1/8) (1/2) (1/8)]] example_wavelengths
     (Some 20) (Fin (3/2)) (Fin (1/100))"
  by (rule process_image_deterministic)

text \<open>
  Claim C4: in every run that completes, the grouped table has
  \<open>len(filtered) // group_size\<close> rows and the subsample has
  \<open>floor(len(grouped) * 0.03)\<close> rows. The group size is a size: not negative when
  given, and the number of filtered rows when not. The generator draws permutations.
\<close>

theorem row_counts:
  assumes "process_image R g0 img wavelengths group_size threshold q = Inr (res, g')"
    and "rng_ok R"
    and "case group_size of None \<Rightarrow> True | Some n \<Rightarrow> 0 \<le> n"
  shows "int (length (averaged_df_shuffled res)) =
           int (length (filtered_df res)) div
             (case group_size of None \<Rightarrow> int (length (filtered_df res)) | Some n \<Rightarrow> n) \<and>
         int (length (top_3_percent_df res)) =
           \<lfloor>rat_of_nat (length (averaged_df_shuffled res)) * (3 / 100)\<rfloor>"
proof -
  obtain m u d where t: "ratio_mask img wavelengths threshold = Inr m"
      "imshow img (86, 52, 18) = Inr u" "spectral_table img wavelengths m = Inr d"
    using assms(1) by (auto simp add: process_image_def split: sum.splits)
  note unfold = process_image_unfold[OF t]
  let ?gs = "case group_size of None \<Rightarrow> int (length (quality_filter d q)) | Some n \<Rightarrow> n"
  let ?avg = "grouped_rows R (quality_filter d q) (length wavelengths) group_size"
  have gs0: "?gs \<noteq> 0"
    using assms(1) by (auto simp add: unfold split: if_splits)
  have pos: "0 \<le> ?gs"
    using assms(3) by (cases group_size) auto
  have res: "res = \<lparr>mask_array = m, df = d, filtered_df = quality_filter d q,
                     averaged_df_shuffled = ?avg,
                     top_3_percent_df = sample_n R (top_3_percent (length ?avg)) 42 ?avg\<rparr>"
    using assms(1) gs0 by (simp add: unfold)
  have "0 \<le> int (length (quality_filter d q)) div ?gs"
    using pos by (simp add: pos_imp_zdiv_nonneg_iff div_int_pos_iff)
  then have a: "int (length ?avg) = int (length (quality_filter d q)) div ?gs"
    by (simp add: length_grouped_rows)
  have "top_3_percent (length ?avg) \<le> length ?avg"
    by (simp add: top_3_percent_def)
  then have b: "length (sample_n R (top_3_percent (length ?avg)) 42 ?avg) = top_3_percent (length ?avg)"
    using assms(2) by (rule length_sample_n[rotated])
  show ?thesis
    using a b by (simp add: res top_3_percent_floor cong: option.case_cong)
qed

text \<open>
  An image of one row of 34 equal pixels, all selected and all kept, grouped one by
  one: 34 filtered rows, 34 groups, and a subsample of \<open>int(34 * 0.03) = 1\<close> row.
\<close>

theorem row_counts_witness:
  "rng_ok reversing_rng \<and>
   (\<exists>res g'. process_image reversing_rng 0 [replicate 34 (example_pixel (1/8) (1/2) (1/8))]
            example_wavelengths (Some 1) (Fin (3/2)) (Fin (1/100)) = Inr (res, g') \<and>
      length (filtered_df res) = 34 \<and>
      length (averaged_df_shuffled res) = 34 \<and>
      length (top_3_percent_df res) = 1)"
proof -
  have k: "quality_filter (replicate 34 (example_pixel (1/8) (1/2) (1/8))) (Fin (1/100)) =
             replicate 34 (example_pixel (1/8) (1/2) (1/8))"
    by (rule example_row_kept) (simp add: fl_le_def)
  have m: "ratio_mask [replicate 34 (example_pixel (1/8) (1/2) (1/8))] example_wavelengths (Fin (3/2)) =
     Inr [replicate 34 True]"
    by (simp add: example_row_mask example_selected)
  have t: "spectral_table [replicate 34 (example_pixel (1/8) (1/2) (1/8))] example_wavelengths
             [replicate 34 True] = Inr (replicate 34 (example_pixel (1/8) (1/2) (1/8)))"
    by (rule example_row_table) simp
  obtain res g' where r: "process_image reversing_rng 0 [replicate 34 (example_pixel (1/8) (1/2) (1/8))]
      example_wavelengths (Some 1) (Fin (3/2)) (Fin (1/100)) = Inr (res, g')"
    and f: "filtered_df res = replicate 34 (example_pixel (1/8) (1/2) (1/8))"
    by (simp add: process_image_unfold[OF m imshow_ok[OF example_bands] t] k)
  have c: "int (length (averaged_df_shuffled res)) = int (length (filtered_df res)) div 1 \<and>
         int (length (top_3_percent_df res)) =
           \<lfloor>rat_of_nat (length (averaged_df_shuffled res)) * (3 / 100)\<rfloor>"
    using row_counts[OF r rng_ok_reversing] by simp
  then have a: "length (averaged_df_shuffled res) = 34" using f by simp
  have "\<lfloor>rat_of_nat 34 * (3 / 100)\<rfloor> = 1" by (simp add: floor_eq_iff)
  then have "length (top_3_percent_df res) = 1" using c a by simp
  then show ?thesis
    using r f a rng_ok_reversing by auto
qed

text \<open>
  Claim C5: when the mask selects no pixel, the extraction fails with an
  EmptyRegionError rather than silently producing empty tables. The run does fail and
  produces no table, but the notebook has no error of its own: what it raises is the
  library's. The amended claim: for every image of 87 bands or more on which the mask
  selects no pixel, the extraction fails with the \<open>ValueError\<close> of numpy's reshape of
  the empty list of spectra, whatever the other parameters, and produces no table. (An
  image of fewer bands fails before, with the \<open>IndexError\<close> of the rendering.)
\<close>

theorem empty_mask_raises_value_error:
  assumes "ratio_mask img wavelengths threshold = Inr m"
    and "\<forall>row\<in>set m. True \<notin> set row"
    and "bands_at_least 87 img"
  shows "process_image R g0 img wavelengths group_size threshold q = Inl ValueError"
  using assms
  by (simp add: process_image_def imshow_ok spectral_table_def np_argwhere_empty)

text \<open>
  A cube of 87 bands whose only pixel has the ratio 0 / 1 = 0: the mask is empty and
  the run ends in \<open>ValueError\<close>.
\<close>

theorem empty_mask_counterexample:
  "ratio_mask [[example_pixel 1 0 0]] example_wavelengths (Fin (3/2)) = Inr [[False]] \<and>
   bands_at_least 87 [[example_pixel 1 0 0]] \<and>
   process_image reversing_rng 0 [[example_pixel 1 0 0]] example_wavelengths (Some 20)
     (Fin (3/2)) (Fin (1/100)) = Inl ValueError \<and>
   process_image reversing_rng 0 [[example_pixel 1 0 0]] example_wavelengths (Some 20)
     (Fin (3/2)) (Fin (1/100)) \<noteq> Inl EmptyRegionError"
proof -
  have m: "ratio_mask [[example_pixel 1 0 0]] example_wavelengths (Fin (3/2)) = Inr [[False]]"
    by (simp add: example_mask fl_div_def is_zero_def signed_zero_def fl_less_def)
  have "process_image reversing_rng 0 [[example_pixel 1 0 0]] example_wavelengths (Some 20)
     (Fin (3/2)) (Fin (1/100)) = Inl ValueError"
    by (simp add: process_image_def m imshow_ok[OF example_bands_1] spectral_table_def
        np_argwhere_def)
  then show ?thesis using m example_bands_1 by simp
qed

theorem empty_mask_raises_value_error_witness:
  "ratio_mask [[example_pixel 1 0 0]] example_wavelengths (Fin (3/2)) = Inr [[False]] \<and>
   bands_at_least 87 [[example_pixel 1 0 0]] \<and>
   process_image reversing_rng 0 [[example_pixel 1 0 0]] example_wavelengths None
     (Fin (3/2)) (Fin (1/100)) = Inl ValueError"
proof -
  have m: "ratio_mask [[example_pixel 1 0 0]] example_wavelengths (Fin (3/2)) = Inr [[False]]"
    by (simp add: example_mask fl_div_def is_zero_def signed_zero_def fl_less_def)
  show ?thesis
    using empty_mask_raises_value_error[OF m _ example_bands_1, of reversing_rng 0 None "Fin (1/100)"]
      m example_bands_1
    by simp
qed

text \<open>
  Claim C6: when \<open>group_size\<close> exceeds the number of filtered rows, the extraction
  fails with an InsufficientDataError rather than silently producing an empty grouped
  table and an empty subsample. The code has no such check: the number of groups is 0,
  and the run completes. The amended claim: for every image of 87 bands or more whose
  spectral table is built (the mask selects a pixel), when \<open>group_size\<close> exceeds the
  number of filtered rows, the extraction completes and returns the mask, the spectral
  table and the filtered table with an empty grouped table and an empty subsample.
\<close>

theorem oversized_group_gives_empty_tables:
  assumes "ratio_mask img wavelengths threshold = Inr m"
    and "bands_at_least 87 img"
    and "spectral_table img wavelengths m = Inr d"
    and "int (length (quality_filter d q)) < n"
  shows "\<exists>g'. process_image R g0 img wavelengths (Some n) threshold q =
           Inr (\<lparr>mask_array = m, df = d, filtered_df = quality_filter d q,
                 averaged_df_shuffled = [], top_3_percent_df = []\<rparr>, g')"
proof -
  have "n \<noteq> 0" using assms(4) by auto
  moreover have "int (length (quality_filter d q)) div n = 0"
    using assms(4) by simp
  then have "grouped_rows R (quality_filter d q) (length wavelengths) (Some n) = []"
    by (simp add: grouped_rows_def)
  ultimately show ?thesis
    by (simp add: process_image_unfold[OF assms(1) imshow_ok[OF assms(2)] assms(3)]
        top_3_percent_def sample_n_zero)
qed

text \<open>
  One selected pixel of 87 bands that passes the filter, and the group size 20 of the
  batch run: the run returns, with an empty grouped table and an empty subsample (and
  the generator of the examples, seeded with 42, one draw further).
\<close>

theorem oversized_group_counterexample:
  "process_image reversing_rng 0 [[example_pixel (1/8) (1/2) (1/8)]] example_wavelengths (Some 20)
     (Fin (3/2)) (Fin (1/100)) =
   Inr (\<lparr>mask_array = [[True]], df = [example_pixel (1/8) (1/2) (1/8)],
         filtered_df = [example_pixel (1/8) (1/2) (1/8)],
         averaged_df_shuffled = [], top_3_percent_df = []\<rparr>, 43)"
  by (simp add: process_image_unfold[OF example_selected_mask imshow_ok[OF example_bands_1]
        example_table] example_kept
      grouped_rows_def top_3_percent_def sample_n_zero sample_frac_1_def reversing_rng_def)

theorem oversized_group_gives_empty_tables_witness:
  "ratio_mask [[example_pixel (1/8) (1/2) (1/8)]] example_wavelengths (Fin (3/2)) = Inr [[True]] \<and>
   bands_at_least 87 [[example_pixel (1/8) (1/2) (1/8)]] \<and>
   spectral_table [[example_pixel (1/8) (1/2) (1/8)]] example_wavelengths [[True]] =
     Inr [example_pixel (1/8) (1/2) (1/8)] \<and>
   int (length (quality_filter [example_pixel (1/8) (1/2) (1/8)] (Fin (1/100)))) < 20 \<and>
   (\<exists>g'. process_image reversing_rng 0 [[example_pixel (1/8) (1/2) (1/8)]] example_wavelengths
            (Some 20) (Fin (3/2)) (Fin (1/100)) =
          Inr (\<lparr>mask_array = [[True]], df = [example_pixel (1/8) (1/2) (1/8)],
                filtered_df = [example_pixel (1/8) (1/2) (1/8)],
                averaged_df_shuffled = [], top_3_percent_df = []\<rparr>, g'))"
proof -
  have l: "int (length (quality_filter [example_pixel (1/8) (1/2) (1/8)] (Fin (1/100)))) < 20"
    by (simp add: example_kept)
  show ?thesis
    using oversized_group_gives_empty_tables[OF example_selected_mask example_bands_1
        example_table l, of reversing_rng 0]
      example_selected_mask example_bands_1 example_table l
    by (simp add: example_kept)
qed

text \<open>
  Claim C10: when the quality filter leaves no row and \<open>group_size\<close> is not given, the
  default sets \<open>group_size\<close> to the number of filtered rows, which is 0, and the
  computation of the number of groups divides by zero: the extraction fails with
  \<open>ZeroDivisionError\<close> and produces no grouped table. The quality filter is reached by
  the images of 87 bands or more whose spectral table is built.
\<close>

theorem no_filtered_rows_default_group_size:
  assumes "ratio_mask img wavelengths threshold = Inr m"
    and "bands_at_least 87 img"
    and "spectral_table img wavelengths m = Inr d"
    and "quality_filter d q = []"
  shows "process_image R g0 img wavelengths None threshold q = Inl ZeroDivisionError"
  using assms(4)
  by (simp add: process_image_unfold[OF assms(1) imshow_ok[OF assms(2)] assms(3)])

theorem no_filtered_rows_default_group_size_witness:
  "ratio_mask [[example_pixel (1/1024) (1/64) 0]] example_wavelengths (Fin (3/2)) = Inr [[True]] \<and>
   bands_at_least 87 [[example_pixel (1/1024) (1/64) 0]] \<and>
   spectral_table [[example_pixel (1/1024) (1/64) 0]] example_wavelengths [[True]] =
     Inr [example_pixel (1/1024) (1/64) 0] \<and>
   quality_filter [example_pixel (1/1024) (1/64) 0] (Fin (1/100)) = [] \<and>
   process_image reversing_rng 0 [[example_pixel (1/1024) (1/64) 0]] example_wavelengths None
     (Fin (3/2)) (Fin (1/100)) = Inl ZeroDivisionError"
proof -
  have m: "ratio_mask [[example_pixel (1/1024) (1/64) 0]] example_wavelengths (Fin (3/2)) = Inr [[True]]"
    by (simp add: example_mask fl_div_def is_zero_def fl_less_def)
  have q: "quality_filter [example_pixel (1/1024) (1/64) 0] (Fin (1/100)) = []"
    by (simp add: quality_filter_def nanmean_example_pixel fl_le_def)
  show ?thesis
    using no_filtered_rows_default_group_size[OF m example_bands_1 example_table q, of reversing_rng 0]
      m example_bands_1 example_table q
    by simp
qed

end
